theory Spec2Isabelle
  imports Complex_Main
begin

section \<open>Values: floats, exceptions, vectors\<close>

text \<open>
  The notebooks compute with NumPy floats of type float32 (the encoder's output type). A
  float is modelled as an exact real number: rounding, overflow and underflow are outside
  the model, so a property stated here stands for the program only up to rounding, and
  only for values whose squares neither vanish nor overflow in float32. The one special
  value the modelled code can produce from finite inputs is NaN (the mean of an empty
  list), so an aggregate score is either \<open>NaN\<close> or a real value.

  An exception is identified by the name of its Python class. The only exception the
  modelled code paths raise is the built-in \<open>ValueError\<close>.
\<close>

datatype score = NaN | Val real

datatype exception = Exception string

abbreviation ValueError :: exception where
  "ValueError \<equiv> Exception ''ValueError''"

type_synonym vector = "real list"

type_synonym matrix = "real list list"

text \<open>
  The sentence encoder (\<open>SentenceTransformer.encode\<close>) is external: it is a parameter,
  a fixed function from a text to its embedding.
\<close>

type_synonym encoder = "string \<Rightarrow> vector"

section \<open>Library functions the notebooks call\<close>

subsection \<open>Python: float comparison, \<open>max\<close> with a key, dict assignment\<close>

text \<open>\<open>x > y\<close> on floats: every comparison with NaN is false.\<close>

fun gt :: "score \<Rightarrow> score \<Rightarrow> bool" where
  "gt (Val x) (Val y) = (y < x)"
| "gt _ _ = False"

text \<open>
  A dict is an association list in insertion order. \<open>d[k] = v\<close> replaces the value of an
  existing key where it stands and appends a new key at the end.
\<close>

fun dict_set :: "('k \<times> 'v) list \<Rightarrow> 'k \<Rightarrow> 'v \<Rightarrow> ('k \<times> 'v) list" where
  "dict_set [] k v = [(k, v)]"
| "dict_set ((k', v') # d) k v =
     (if k' = k then (k, v) # d else (k', v') # dict_set d k v)"

text \<open>
  \<open>max(d, key=d.get)\<close> walks the keys in insertion order, starts with the first one and
  replaces the current maximum only by an item whose key value is strictly greater.
  On an empty dict it raises \<open>ValueError\<close>.
\<close>

fun max_loop :: "'k \<times> score \<Rightarrow> ('k \<times> score) list \<Rightarrow> 'k \<times> score" where
  "max_loop best [] = best"
| "max_loop best (item # items) =
     max_loop (if gt (snd item) (snd best) then item else best) items"

definition py_max :: "('k \<times> score) list \<Rightarrow> exception + 'k" where
  "py_max d = (case d of [] \<Rightarrow> Inl ValueError | item # items \<Rightarrow> Inr (fst (max_loop item items)))"

subsection \<open>NumPy: \<open>np.mean\<close>\<close>

text \<open>\<open>np.mean\<close> of an empty list is NaN (with a warning, not an exception).\<close>

definition np_mean :: "real list \<Rightarrow> score" where
  "np_mean xs = (if xs = [] then NaN else Val (sum_list xs / real (length xs)))"

subsection \<open>scikit-learn: \<open>cosine_similarity\<close>\<close>

definition dot :: "vector \<Rightarrow> vector \<Rightarrow> real" where
  "dot a b = sum_list (map (\<lambda>(x, y). x * y) (zip a b))"

definition row_norm :: "vector \<Rightarrow> real" where
  "row_norm a = sqrt (dot a a)"

text \<open>The machine epsilon of float32, \<^verbatim>\<open>np.finfo(np.float32).eps\<close>.\<close>

definition float32_eps :: real where
  "float32_eps = 1 / 2 ^ 23"

text \<open>
  \<open>normalize\<close> divides a row by its Euclidean norm. A row whose norm is below ten machine
  epsilons (a zero row among them) is divided by 1 instead, that is, left as it is:
  \<^verbatim>\<open>norms[norms < 10 * eps] = 1.0\<close>.
\<close>

definition normalize :: "vector \<Rightarrow> vector" where
  "normalize a =
     (let n = row_norm a; s = (if n < 10 * float32_eps then 1 else n) in map (\<lambda>x. x / s) a)"

text \<open>
  Input validation: an array needs at least one row, rows of one length, and at least one
  column; otherwise \<open>ValueError\<close>.
\<close>

definition check_array :: "matrix \<Rightarrow> exception + matrix" where
  "check_array X =
     (if X = [] then Inl ValueError
      else if \<not> list_all (\<lambda>r. length r = length (hd X)) X then Inl ValueError
      else if hd X = [] then Inl ValueError
      else Inr X)"

text \<open>
  \<open>cosine_similarity(X, Y=None)\<close>: with no \<open>Y\<close> the rows of \<open>X\<close> are compared with each
  other. Both arrays are validated, their column counts must agree (\<open>ValueError\<close>
  otherwise), and entry \<open>(i, j)\<close> is the dot product of the normalised rows \<open>X[i]\<close> and
  \<open>Y[j]\<close>.
\<close>

definition cosine_similarity :: "matrix \<Rightarrow> matrix option \<Rightarrow> exception + matrix" where
  "cosine_similarity X Yopt =
     (let Y = (case Yopt of None \<Rightarrow> X | Some Y' \<Rightarrow> Y') in
      case check_array X of
        Inl e \<Rightarrow> Inl e
      | Inr X' \<Rightarrow>
         (case check_array Y of
            Inl e \<Rightarrow> Inl e
          | Inr Y' \<Rightarrow>
             if length (hd X') \<noteq> length (hd Y') then Inl ValueError
             else Inr (map (\<lambda>x. map (\<lambda>y. dot (normalize x) (normalize y)) Y') X')))"

section \<open>The notebooks\<close>

subsection \<open>\<open>classify_policy_stance\<close>: \<open>get_embedding\<close> and \<open>classify_text\<close>\<close>

definition get_embedding :: "encoder \<Rightarrow> string \<Rightarrow> vector" where
  "get_embedding model text = model text"

text \<open>
  The list comprehension
  \<^verbatim>\<open>[cosine_similarity([text_vec], [get_embedding(ex)])[0][0] for ex in examples]\<close>:
  the first exception ends it.
\<close>

fun sims_of :: "encoder \<Rightarrow> vector \<Rightarrow> string list \<Rightarrow> exception + real list" where
  "sims_of model text_vec [] = Inr []"
| "sims_of model text_vec (ex # examples) =
     (case cosine_similarity [text_vec] (Some [get_embedding model ex]) of
        Inl e \<Rightarrow> Inl e
      | Inr K \<Rightarrow>
         (case sims_of model text_vec examples of
            Inl e \<Rightarrow> Inl e
          | Inr sims \<Rightarrow> Inr (K ! 0 ! 0 # sims)))"

text \<open>The loop \<^verbatim>\<open>for label, examples in anchors.items()\<close>, threading the dict \<open>scores\<close>.\<close>

fun scores_loop ::
  "encoder \<Rightarrow> vector \<Rightarrow> (string \<times> string list) list \<Rightarrow> (string \<times> score) list
     \<Rightarrow> exception + (string \<times> score) list" where
  "scores_loop model text_vec [] scores = Inr scores"
| "scores_loop model text_vec ((label, examples) # anchors) scores =
     (case sims_of model text_vec examples of
        Inl e \<Rightarrow> Inl e
      | Inr sims \<Rightarrow> scores_loop model text_vec anchors (dict_set scores label (np_mean sims)))"

definition classify_text ::
  "encoder \<Rightarrow> string \<Rightarrow> (string \<times> string list) list
     \<Rightarrow> exception + (string \<times> (string \<times> score) list)" where
  "classify_text model text anchors =
     (let text_vec = get_embedding model text in
      case scores_loop model text_vec anchors [] of
        Inl e \<Rightarrow> Inl e
      | Inr scores \<Rightarrow>
         (case py_max scores of
            Inl e \<Rightarrow> Inl e
          | Inr best \<Rightarrow> Inr (best, scores)))"

subsection \<open>The embeddings demo: \<open>similarity_matrix\<close>\<close>


section \<open>Reference definitions\<close>

text \<open>
  The divisor \<open>normalize\<close> applies to a row: its norm, or 1 for a row whose norm is below
  ten machine epsilons.
\<close>

definition scale_of :: "vector \<Rightarrow> real" where
  "scale_of a = (if row_norm a < 10 * float32_eps then 1 else row_norm a)"

text \<open>The value of one entry of \<open>cosine_similarity\<close> in closed form.\<close>

definition cosine_value :: "vector \<Rightarrow> vector \<Rightarrow> real" where
  "cosine_value a b = dot a b / (scale_of a * scale_of b)"

text \<open>
  The aggregate score of a label as \<open>classify_text\<close> stores it, and its value for a
  label with at least one example.
\<close>

definition label_score :: "encoder \<Rightarrow> string \<Rightarrow> string list \<Rightarrow> score" where
  "label_score model text examples =
     np_mean (map (\<lambda>ex. cosine_value (model text) (model ex)) examples)"





text \<open>
  Small encoders for concrete runs. The first two differ only on a text no example uses;
  the third gives non-zero embeddings whose norms are below ten machine epsilons.
\<close>

definition toy_model :: encoder where
  "toy_model s =
     (if s = ''east'' then [1, 0]
      else if s = ''north'' then [0, 1]
      else if s = ''origin'' then [0, 0]
      else [1, 0, 0])"

definition toy_model_alt :: encoder where
  "toy_model_alt s = (if s = ''elsewhere'' then [2, 2] else toy_model s)"


section \<open>Dot products and norms\<close>

lemma dot_Nil [simp]: "dot [] b = 0" "dot a [] = 0"
  by (simp_all add: dot_def)

lemma dot_Cons [simp]: "dot (x # a) (y # b) = x * y + dot a b"
  by (simp add: dot_def)

lemma dot_self_nonneg: "0 \<le> dot a a"
  by (induction a) simp_all

lemma dot_self_zero_iff: "dot a a = 0 \<longleftrightarrow> (\<forall>x\<in>set a. x = 0)"
proof (induction a)
  case Nil
  show ?case by simp
next
  case (Cons x a)
  have "x * x + dot a a = 0 \<longleftrightarrow> x * x = 0 \<and> dot a a = 0"
    using dot_self_nonneg [of a] by (intro add_nonneg_eq_0_iff) simp_all
  with Cons show ?case by simp
qed

lemma row_norm_zero_iff: "row_norm a = 0 \<longleftrightarrow> (\<forall>x\<in>set a. x = 0)"
  by (simp add: row_norm_def dot_self_zero_iff)


lemma row_norm_nonneg: "0 \<le> row_norm a"
  by (simp add: row_norm_def dot_self_nonneg)


lemma dot_zero_left: "\<forall>x\<in>set a. x = 0 \<Longrightarrow> dot a b = 0"
proof (induction a arbitrary: b)
  case Nil
  show ?case by simp
next
  case (Cons x a)
  then show ?case by (cases b) simp_all
qed

lemma dot_commute: "dot a b = dot b a"
proof (induction a arbitrary: b)
  case Nil
  show ?case by simp
next
  case (Cons x a)
  then show ?case by (cases b) (simp_all add: mult.commute)
qed

lemma dot_scale: "dot (map (\<lambda>x. x / s) a) (map (\<lambda>y. y / t) b) = dot a b / (s * t)"
proof (induction a arbitrary: b)
  case Nil
  show ?case by simp
next
  case (Cons x a)
  then show ?case by (cases b) (simp_all add: add_divide_distrib)
qed

lemma normalize_eq: "normalize a = map (\<lambda>x. x / scale_of a) a"
  by (simp add: normalize_def scale_of_def Let_def)

lemma length_normalize [simp]: "length (normalize a) = length a"
  by (simp add: normalize_eq)

lemma dot_normalize: "dot (normalize a) (normalize b) = dot a b / (scale_of a * scale_of b)"
  by (simp add: normalize_eq dot_scale)





lemma row_norm_less_iff: "0 < t \<Longrightarrow> row_norm a < t \<longleftrightarrow> dot a a < t * t"
proof -
  assume t: "0 < t"
  then have "sqrt (t * t) = t" by simp
  then have "row_norm a < t \<longleftrightarrow> sqrt (dot a a) < sqrt (t * t)" by (simp add: row_norm_def)
  then show ?thesis by (simp only: real_sqrt_less_iff)
qed


lemma check_array_single: "check_array [a] = (if a = [] then Inl ValueError else Inr [a])"
  by (simp add: check_array_def)

lemma cosine_similarity_pair:
  "cosine_similarity [a] (Some [b]) =
     (if a = [] \<or> b = [] \<or> length a \<noteq> length b then Inl ValueError
      else Inr [ [dot (normalize a) (normalize b)] ])"
  by (simp add: cosine_similarity_def check_array_single)

section \<open>The comprehension, the loop and \<open>max\<close>\<close>

lemma dot_normalize_cosine_value: "dot (normalize a) (normalize b) = cosine_value a b"
  by (simp add: dot_normalize cosine_value_def)


lemma sims_of_ok:
  assumes "q \<noteq> []" and "\<forall>ex\<in>set examples. length (model ex) = length q"
  shows "sims_of model q examples = Inr (map (\<lambda>ex. cosine_value q (model ex)) examples)"
  using assms(2)
proof (induction examples)
  case Nil
  show ?case by simp
next
  case (Cons ex examples)
  from Cons.prems have len: "length (model ex) = length q" by simp
  with assms(1) have ne: "model ex \<noteq> []" by auto
  from Cons have IH: "sims_of model q examples = Inr (map (\<lambda>ex. cosine_value q (model ex)) examples)"
    by simp
  show ?case
    using assms(1) ne len
    by (simp add: IH cosine_similarity_pair get_embedding_def dot_normalize_cosine_value)
qed

lemma dict_set_fresh: "k \<notin> fst ` set d \<Longrightarrow> dict_set d k v = d @ [(k, v)]"
  by (induction d) auto

lemma scores_loop_ok:
  assumes "q \<noteq> []"
    and "\<forall>(label, examples)\<in>set anchors. \<forall>ex\<in>set examples. length (model ex) = length q"
    and "distinct (map fst scores @ map fst anchors)"
  shows "scores_loop model q anchors scores =
           Inr (scores @ map (\<lambda>(label, examples).
                  (label, np_mean (map (\<lambda>ex. cosine_value q (model ex)) examples))) anchors)"
  using assms(2,3)
proof (induction anchors arbitrary: scores)
  case Nil
  show ?case by simp
next
  case (Cons p anchors)
  obtain label examples where p: "p = (label, examples)" by (cases p)
  from Cons.prems(1) p have ex: "\<forall>ex\<in>set examples. length (model ex) = length q"
    and rest: "\<forall>(label, examples)\<in>set anchors. \<forall>ex\<in>set examples. length (model ex) = length q"
    by auto
  from Cons.prems(2) p have fresh: "label \<notin> fst ` set scores"
    and dist: "distinct (map fst (scores @ [(label, np_mean (map (\<lambda>ex. cosine_value q (model ex)) examples))]) @ map fst anchors)"
    by auto
  show ?case
    using Cons.IH [OF rest dist]
    by (simp add: p sims_of_ok [OF assms(1) ex] dict_set_fresh [OF fresh])
qed

lemma classify_text_unfold:
  assumes "model text \<noteq> []"
    and "\<forall>(label, examples)\<in>set anchors. \<forall>ex\<in>set examples. length (model ex) = length (model text)"
    and "distinct (map fst anchors)"
  shows "classify_text model text anchors =
           (case py_max (map (\<lambda>(label, examples). (label, label_score model text examples)) anchors) of
              Inl e \<Rightarrow> Inl e
            | Inr best \<Rightarrow> Inr (best, map (\<lambda>(label, examples). (label, label_score model text examples)) anchors))"
proof -
  have "scores_loop model (model text) anchors [] =
          Inr ([] @ map (\<lambda>(label, examples).
                  (label, np_mean (map (\<lambda>ex. cosine_value (model text) (model ex)) examples))) anchors)"
    using assms by (intro scores_loop_ok) simp_all
  then show ?thesis
    unfolding classify_text_def get_embedding_def label_score_def by simp
qed









lemma map_fst_label_scores:
  "map fst (map (\<lambda>(label, examples). (label, f examples)) anchors) = map fst anchors"
  by (induction anchors) auto





lemma py_max_nonempty: "d \<noteq> [] \<Longrightarrow> \<exists>best. py_max d = Inr best"
  by (cases d) (simp_all add: py_max_def)


lemma sims_of_cong:
  assumes "\<forall>ex\<in>set examples. model ex = model' ex"
  shows "sims_of model q examples = sims_of model' q examples"
  using assms by (induction examples) (simp_all add: get_embedding_def cong: sum.case_cong)

lemma scores_loop_cong:
  assumes "\<forall>(label, examples)\<in>set anchors. \<forall>ex\<in>set examples. model ex = model' ex"
  shows "scores_loop model q anchors scores = scores_loop model' q anchors scores"
  using assms
proof (induction anchors arbitrary: scores)
  case Nil
  show ?case by simp
next
  case (Cons p anchors)
  obtain label examples where p: "p = (label, examples)" by (cases p)
  from Cons.prems p have ex: "\<forall>ex\<in>set examples. model ex = model' ex"
    and rest: "\<forall>(label, examples)\<in>set anchors. \<forall>ex\<in>set examples. model ex = model' ex"
    by auto
  show ?case
    by (simp add: p sims_of_cong [OF ex] Cons.IH [OF rest] cong: sum.case_cong)
qed














section \<open>Properties\<close>






text \<open>
  C3, as the code has it. For two vectors of equal dimension (at least 1) of which at least
  one is a zero vector, \<open>cosine_similarity\<close> raises nothing and returns the similarity 0.
\<close>

theorem cosine_similarity_zero_vector:
  assumes "a \<noteq> []" and "length a = length b"
    and "(\<forall>x\<in>set a. x = 0) \<or> (\<forall>y\<in>set b. y = 0)"
  shows "cosine_similarity [a] (Some [b]) = Inr [ [0] ]"
proof -
  from assms(1,2) have "b \<noteq> []" by auto
  moreover have "dot a b = 0"
    using assms(3) dot_zero_left [of a b] dot_zero_left [of b a] dot_commute [of a b] by auto
  then have "cosine_value a b = 0" by (simp add: cosine_value_def)
  ultimately show ?thesis
    using assms(1,2) by (simp add: cosine_similarity_pair dot_normalize_cosine_value)
qed

theorem cosine_similarity_zero_vector_witness:
  "cosine_similarity [ [3, 4] ] (Some [ [0, 0] ]) = Inr [ [0] ]"
  by (rule cosine_similarity_zero_vector) simp_all

text \<open>The claim as written fails: a zero vector gives the value 0, not an exception.\<close>

theorem cosine_similarity_zero_vector_counterexample:
  "cosine_similarity [ [0, 0] ] (Some [ [1, 0] ]) = Inr [ [0] ]
   \<and> cosine_similarity [ [0, 0] ] (Some [ [1, 0] ]) \<noteq> Inl (Exception ''DegenerateInputError'')"
  by (simp add: cosine_similarity_def check_array_def normalize_def row_norm_def float32_eps_def)

text \<open>
  C4, as the code has it. On an anchor dict with no label \<open>classify_text\<close> fails, for
  every encoder and query, and returns no result; the exception is the \<open>ValueError\<close> that
  \<open>max\<close> raises on the empty score dict.
\<close>

theorem classify_text_empty_anchors:
  "classify_text model text [] = Inl ValueError"
  by (simp add: classify_text_def py_max_def)

text \<open>The claim as written fails: the exception is not an \<open>EmptyAnchorSetError\<close>.\<close>

theorem classify_text_empty_anchors_counterexample:
  "classify_text toy_model ''east'' [] \<noteq> Inl (Exception ''EmptyAnchorSetError'')"
  by (simp add: classify_text_def py_max_def)

text \<open>
  C5, as the code has it. An anchor dict with a label whose example list is empty is not
  rejected: \<open>classify_text\<close> run against it (all examples having the query's dimension)
  raises nothing and returns a result in which that label's score is NaN.
\<close>

theorem classify_text_empty_examples:
  assumes "distinct (map fst anchors)" and "model text \<noteq> []"
    and "\<forall>(label, examples)\<in>set anchors. \<forall>ex\<in>set examples. length (model ex) = length (model text)"
    and "(label, []) \<in> set anchors"
  shows "\<exists>best scores. classify_text model text anchors = Inr (best, scores)
           \<and> (label, NaN) \<in> set scores"
proof -
  let ?S = "map (\<lambda>(label, examples). (label, label_score model text examples)) anchors"
  from assms(4) have "?S \<noteq> []" by auto
  then obtain best where best: "py_max ?S = Inr best" using py_max_nonempty [of ?S] by blast
  have res: "classify_text model text anchors = Inr (best, ?S)"
    by (simp add: classify_text_unfold [OF assms(2,3,1)] best)
  have "label_score model text [] = NaN" by (simp add: label_score_def np_mean_def)
  with assms(4) have mem: "(label, NaN) \<in> set ?S" by force
  show ?thesis
    by (intro exI conjI) (rule res, rule mem)
qed

theorem classify_text_empty_examples_witness:
  "\<exists>best scores.
     classify_text toy_model ''east'' [(''Supportive'', [''east'']), (''Neutral'', [])] = Inr (best, scores)
   \<and> (''Neutral'', NaN) \<in> set scores"
  by (rule classify_text_empty_examples) (simp_all add: toy_model_def)

text \<open>The claim as written fails: classification runs and returns a result.\<close>

theorem classify_text_empty_examples_counterexample:
  "classify_text toy_model ''east'' [(''Supportive'', [''east'']), (''Neutral'', [])]
     = Inr (''Supportive'', [(''Supportive'', Val 1), (''Neutral'', NaN)])"
  by (simp add: classify_text_def get_embedding_def toy_model_def cosine_similarity_def
      check_array_def normalize_def row_norm_def float32_eps_def np_mean_def py_max_def)

text \<open>
  C6, as the code has it. For two vectors of differing lengths \<open>cosine_similarity\<close>
  fails; the exception is \<open>ValueError\<close>.
\<close>

theorem cosine_similarity_length_mismatch:
  "length a \<noteq> length b \<Longrightarrow> cosine_similarity [a] (Some [b]) = Inl ValueError"
  by (simp add: cosine_similarity_pair)

theorem cosine_similarity_length_mismatch_witness:
  "cosine_similarity [ [1, 0] ] (Some [ [1, 0, 0] ]) = Inl ValueError"
  by (rule cosine_similarity_length_mismatch) simp

text \<open>The claim as written fails at lengths 384 and 512: the exception is not a \<open>DimensionMismatchError\<close>.\<close>

theorem cosine_similarity_length_mismatch_counterexample:
  "cosine_similarity [replicate 384 1] (Some [replicate 512 1]) = Inl ValueError
   \<and> cosine_similarity [replicate 384 1] (Some [replicate 512 1])
        \<noteq> Inl (Exception ''DimensionMismatchError'')"
  by (simp add: cosine_similarity_pair)




text \<open>
  C8. \<open>classify_text\<close> is determined by the query text, the anchor dict and the embeddings
  of the texts involved: two runs in which the encoder returns the same vectors for the
  query and for every example give the same result (the same label and scores, or the
  same exception).
\<close>

theorem classify_text_deterministic:
  assumes "model text = model' text"
    and "\<forall>(label, examples)\<in>set anchors. \<forall>ex\<in>set examples. model ex = model' ex"
  shows "classify_text model text anchors = classify_text model' text anchors"
  by (simp add: classify_text_def get_embedding_def assms(1) scores_loop_cong [OF assms(2)])

theorem classify_text_deterministic_witness:
  "classify_text toy_model ''east'' [(''Supportive'', [''east'']), (''Opposed'', [''north''])]
     = classify_text toy_model_alt ''east'' [(''Supportive'', [''east'']), (''Opposed'', [''north''])]"
  by (rule classify_text_deterministic) (simp_all add: toy_model_alt_def)

text \<open>
  C10. For an anchor dict with at least one label (all embeddings having the query's
  dimension), the returned score mapping has exactly the anchor dict's keys, each once, in
  the anchor dict's insertion order.
\<close>

theorem classify_text_score_keys:
  assumes "anchors \<noteq> []" and "distinct (map fst anchors)" and "model text \<noteq> []"
    and "\<forall>(label, examples)\<in>set anchors. \<forall>ex\<in>set examples. length (model ex) = length (model text)"
  shows "\<exists>best scores. classify_text model text anchors = Inr (best, scores)
           \<and> map fst scores = map fst anchors \<and> distinct (map fst scores)"
proof -
  let ?S = "map (\<lambda>(label, examples). (label, label_score model text examples)) anchors"
  from assms(1) have "?S \<noteq> []" by simp
  then obtain best where best: "py_max ?S = Inr best" using py_max_nonempty [of ?S] by blast
  have res: "classify_text model text anchors = Inr (best, ?S)"
    by (simp add: classify_text_unfold [OF assms(3,4,2)] best)
  have keys: "map fst ?S = map fst anchors" by (rule map_fst_label_scores)
  from assms(2) have dist: "distinct (map fst ?S)" unfolding keys .
  show ?thesis
    by (intro exI conjI) (rule res, rule keys, rule dist)
qed

theorem classify_text_score_keys_witness:
  "\<exists>best scores.
     classify_text toy_model ''east'' [(''Supportive'', [''east'']), (''Neutral'', []), (''Opposed'', [''north''])]
       = Inr (best, scores)
   \<and> map fst scores = map fst [(''Supportive'', [''east'']), (''Neutral'', [] :: string list), (''Opposed'', [''north''])]
   \<and> distinct (map fst scores)"
  by (rule classify_text_score_keys) (simp_all add: toy_model_def)

text \<open>A concrete tie: the second and third label both score 1, and the second is returned.\<close>

lemma classify_text_tie_example:
  "classify_text toy_model ''east''
       [(''Neutral'', [''north'']), (''Supportive'', [''east'']), (''Opposed'', [''east''])]
     = Inr (''Supportive'', [(''Neutral'', Val 0), (''Supportive'', Val 1), (''Opposed'', Val 1)])"
  by (simp add: classify_text_def get_embedding_def toy_model_def cosine_similarity_def
      check_array_def normalize_def row_norm_def float32_eps_def np_mean_def py_max_def)

end
